theory Spec2Isabelle
  imports Main "HOL-Library.Word"
begin

section \<open>BasicFileMonitorService: the bridge between a blocking watch backend and asio\<close>

text \<open>
  This theory embeds \<^verbatim>\<open>include/filemonitor/BasicFileMonitorService.h\<close>. The service is a
  class template over \<^verbatim>\<open>FileMonitorImplementation\<close>; the backend, the event type and the
  boost::filesystem queries are not part of that header and are taken as parameters. What the
  header itself does (validation, the order of calls, shared and weak ownership of the backend,
  posting of completions) is modelled by state passing over a \<open>world\<close>.

  Each member function is one sequential step. The worker thread that runs the service's own
  io_service (started by the constructor, stopped and joined by the destructor) and the host's
  io_service that later invokes a posted handler are boost::asio; here they appear only as the
  two queues that \<open>asyncMonitor\<close> and \<open>MonitorOperation::operator()\<close> append to.
\<close>

subsection \<open>Values\<close>

text \<open>
  A \<^verbatim>\<open>boost::filesystem::path\<close> is its text, \<^verbatim>\<open>path.string()\<close>. Two different texts
  can be the same path to boost (\<^verbatim>\<open>x//f\<close> and \<^verbatim>\<open>x/f\<close>), so the comparison of paths is
  not the equality of texts: it is one of the parameters below.
\<close>

type_synonym path = string

type_synonym addr = nat

text \<open>
  \<^verbatim>\<open>boost::system::error_code\<close>: default-constructed it is \<open>success\<close>; the header names
  \<^verbatim>\<open>boost::asio::error::operation_aborted\<close>; any other value comes from the backend.
\<close>

datatype error_code = success | operation_aborted | backend_error int

text \<open>
  How a member function of the service can fail: \<^verbatim>\<open>throw std::invalid_argument(what)\<close>; a
  \<^verbatim>\<open>boost::filesystem::filesystem_error\<close> thrown by one of the filesystem queries it calls
  (carrying the error number of the failed system call), which the header does not catch; or
  \<^verbatim>\<open>impl->\<close> applied to an empty \<^verbatim>\<open>boost::shared_ptr\<close> (the assertion \<^verbatim>\<open>px != 0\<close>
  of \<^verbatim>\<open>operator->\<close>).
\<close>

datatype failure = invalid_argument string | filesystem_error int | null_dereference

subsection \<open>Parameters: the filesystem queries and the backend\<close>

text \<open>
  What boost::filesystem does for the header, for one state of the filesystem. The header
  calls the overloads without an \<^verbatim>\<open>error_code\<close> argument: each of the four queries either
  answers (\<open>Inr\<close>) or throws a \<^verbatim>\<open>filesystem_error\<close> (\<open>Inl\<close> of its error number).
  \<open>is_directory\<close> and \<open>is_regular_file\<close> ask for the status of the path, following
  symlinks, and \<open>is_symlink\<close> for the status of the path itself; a path that does not exist
  is answered \<open>False\<close>, any other failure of the status call (a loop of symlinks, a
  permission denied, a name too long) is thrown. \<open>path_differs a b\<close> is \<^verbatim>\<open>a != b\<close> on
  paths, which is \<^verbatim>\<open>a.compare(b) != 0\<close>, element by element.
\<close>

record filesystem =
  is_directory :: "path \<Rightarrow> int + bool"
  is_regular_file :: "path \<Rightarrow> int + bool"
  is_symlink :: "path \<Rightarrow> int + bool"
  read_symlink :: "path \<Rightarrow> int + path"
  path_differs :: "path \<Rightarrow> path \<Rightarrow> bool"

text \<open>
  The members of \<^verbatim>\<open>FileMonitorImplementation\<close> the header uses, over the backend's own
  state \<open>'b\<close>, and \<^verbatim>\<open>FileMonitorEvent()\<close>, the default-constructed event of type \<open>'e\<close>.
  \<^verbatim>\<open>popFrontEvent(ec)\<close> receives the caller's error code by reference and returns the
  event; the model passes the code in and out. A call is represented by the value it returns
  with; for how long it blocks is not modelled.
\<close>

record ('b, 'e) backend =
  impl_new :: "'b"
  impl_addPath :: "'b \<Rightarrow> path \<Rightarrow> string \<Rightarrow> 64 word \<times> 'b"
  impl_addFile :: "'b \<Rightarrow> path \<Rightarrow> 64 word \<times> 'b"
  impl_remove :: "'b \<Rightarrow> 64 word \<Rightarrow> 'b"
  impl_popFrontEvent :: "'b \<Rightarrow> error_code \<Rightarrow> 'e \<times> error_code \<times> 'b"
  impl_destroy :: "'b \<Rightarrow> 'b"
  event_default :: "'e"

subsection \<open>The world: backend objects, their ownership, and the two io_services\<close>

text \<open>
  A backend object lives at an address together with the number of \<^verbatim>\<open>shared_ptr\<close>s that
  own it. When the count reaches 0 the object is deleted; the entry stays (as the control
  block does) so that a \<^verbatim>\<open>weak_ptr\<close> can find out.
\<close>

record 'b control_block =
  object :: "'b"
  use_count :: nat

text \<open>What the service does to a backend object or to its ownership, in the order done.\<close>

datatype action =
    BackendNew addr
  | BackendAddPath addr path string
  | BackendAddFile addr path
  | BackendRemove addr "64 word"
  | BackendPopFrontEvent addr
  | BackendDestroy addr
  | Acquire addr
  | Release addr

text \<open>
  \<^verbatim>\<open>MonitorOperation<Handler>\<close>: the weak pointer \<open>mImpl\<close> and the handler. Its reference
  to the host io_service is the \<open>host_posted\<close> queue of the world; the member \<open>mWork\<close>
  (which keeps the host's \<^verbatim>\<open>run()\<close> from returning) has no part in what follows and is
  left out.
\<close>

record 'h MonitorOperation =
  mImpl :: "addr option"
  mHandler :: "'h"

record ('b, 'e, 'h) world =
  heap :: "addr \<Rightarrow> 'b control_block"
  next_addr :: addr
  trace :: "action list"
  worker_queue :: "'h MonitorOperation list"
  host_posted :: "('h \<times> error_code \<times> 'e) list"

subsection \<open>Shared and weak pointers\<close>

text \<open>
  An \<open>implementation_type\<close> (a \<^verbatim>\<open>boost::shared_ptr<FileMonitorImplementation>\<close>) is
  \<open>None\<close> when empty and \<open>Some a\<close> when it owns the object at \<open>a\<close>.
\<close>

definition sp_release :: "('b, 'e, 'h) world \<Rightarrow> addr \<Rightarrow> ('b, 'e, 'h) world" where
  "sp_release w a =
     w\<lparr>heap := (heap w)(a := (heap w a)\<lparr>use_count := use_count (heap w a) - 1\<rparr>),
       trace := trace w @ [Release a]\<rparr>"

definition sp_reset :: "('b, 'e, 'h) world \<Rightarrow> addr option \<Rightarrow> ('b, 'e, 'h) world" where
  "sp_reset w impl = (case impl of None \<Rightarrow> w | Some a \<Rightarrow> sp_release w a)"

text \<open>
  \<^verbatim>\<open>weak_ptr::expired()\<close> and \<^verbatim>\<open>weak_ptr::lock()\<close>: a new owner if the object is
  still owned, empty otherwise.
\<close>

definition expired :: "('b, 'e, 'h) world \<Rightarrow> addr option \<Rightarrow> bool" where
  "expired w wp = (case wp of None \<Rightarrow> True | Some a \<Rightarrow> use_count (heap w a) = 0)"

definition wp_lock ::
  "('b, 'e, 'h) world \<Rightarrow> addr option \<Rightarrow> addr option \<times> ('b, 'e, 'h) world" where
  "wp_lock w wp =
     (case wp of
        None \<Rightarrow> (None, w)
      | Some a \<Rightarrow>
          if expired w wp then (None, w)
          else (Some a,
                w\<lparr>heap := (heap w)(a := (heap w a)\<lparr>use_count := Suc (use_count (heap w a))\<rparr>),
                  trace := trace w @ [Acquire a]\<rparr>))"

text \<open>Storing the backend's new state after a call through \<^verbatim>\<open>impl->\<close>.\<close>

definition backend_call ::
  "('b, 'e, 'h) world \<Rightarrow> addr \<Rightarrow> 'b \<Rightarrow> action \<Rightarrow> ('b, 'e, 'h) world" where
  "backend_call w a b' act =
     w\<lparr>heap := (heap w)(a := (heap w a)\<lparr>object := b'\<rparr>), trace := trace w @ [act]\<rparr>"

subsection \<open>The exceptions of addPath and addFile\<close>

text \<open>
  Both validation failures are \<^verbatim>\<open>std::invalid_argument\<close>; they differ in the text of
  \<^verbatim>\<open>what()\<close>. \<open>InvalidPath\<close> and \<open>UnresolvedSymlink\<close> name the two throw statements.
  (\<^verbatim>\<open>addPath\<close> throws with the text of \<^verbatim>\<open>addFile\<close>, as the header has it.)
\<close>

definition what_prefix :: "path \<Rightarrow> string" where
  "what_prefix p =
     ''boost::asio::BasicFileMonitorService::addFile: '' @ [CHR 0x22] @ p"

definition InvalidPath :: "path \<Rightarrow> failure" where
  "InvalidPath p =
     invalid_argument (what_prefix p @ [CHR 0x22] @ '' is not a valid file or directory entry'')"

definition UnresolvedSymlink :: "path \<Rightarrow> failure" where
  "UnresolvedSymlink p =
     invalid_argument (what_prefix p @ [CHR 0x22] @ '' this path is a symlink and must be resolved'')"

subsection \<open>The member functions of the service\<close>

definition construct ::
  "('b, 'e) backend \<Rightarrow> ('b, 'e, 'h) world \<Rightarrow> addr option \<Rightarrow> ('b, 'e, 'h) world \<times> addr option" where
  "construct B w impl =
     (let a = next_addr w;
          w1 = w\<lparr>heap := (heap w)(a := \<lparr>object = impl_new B, use_count = 1\<rparr>),
                 next_addr := Suc a,
                 trace := trace w @ [BackendNew a]\<rparr>
      in (sp_reset w1 impl, Some a))"

definition destroy ::
  "('b, 'e) backend \<Rightarrow> ('b, 'e, 'h) world \<Rightarrow> addr option
     \<Rightarrow> (failure + unit) \<times> ('b, 'e, 'h) world \<times> addr option" where
  "destroy B w impl =
     (case impl of
        None \<Rightarrow> (Inl null_dereference, w, impl)
      | Some a \<Rightarrow>
          (let w1 = backend_call w a (impl_destroy B (object (heap w a))) (BackendDestroy a);
               w2 = sp_reset w1 impl
           in (Inr (), w2, None)))"

text \<open>
  A \<^verbatim>\<open>filesystem_error\<close> thrown by the query in the condition leaves \<open>addPath\<close> before
  either branch is taken.
\<close>

definition addPath ::
  "filesystem \<Rightarrow> ('b, 'e) backend \<Rightarrow> ('b, 'e, 'h) world \<Rightarrow> addr option \<Rightarrow> path \<Rightarrow> string
     \<Rightarrow> (failure + 64 word) \<times> ('b, 'e, 'h) world" where
  "addPath fs B w impl p regexMatch =
     (case is_directory fs p of
        Inl e \<Rightarrow> (Inl (filesystem_error e), w)
      | Inr directory \<Rightarrow>
          if \<not> directory then (Inl (InvalidPath p), w)
          else
            (case impl of
               None \<Rightarrow> (Inl null_dereference, w)
             | Some a \<Rightarrow>
                 (let (h, b') = impl_addPath B (object (heap w a)) p regexMatch
                  in (Inr h, backend_call w a b' (BackendAddPath a p regexMatch)))))"

text \<open>
  The condition \<^verbatim>\<open>is_symlink( path ) && read_symlink( path ) != path\<close> of \<open>addFile\<close>:
  \<open>read_symlink\<close> is called only if \<open>is_symlink\<close> answered \<open>True\<close>, and either call can
  throw.
\<close>

definition unresolved_symlink :: "filesystem \<Rightarrow> path \<Rightarrow> int + bool" where
  "unresolved_symlink fs p =
     (case is_symlink fs p of
        Inl e \<Rightarrow> Inl e
      | Inr symlink \<Rightarrow>
          if \<not> symlink then Inr False
          else (case read_symlink fs p of
                  Inl e \<Rightarrow> Inl e
                | Inr target \<Rightarrow> Inr (path_differs fs target p)))"

definition addFile ::
  "filesystem \<Rightarrow> ('b, 'e) backend \<Rightarrow> ('b, 'e, 'h) world \<Rightarrow> addr option \<Rightarrow> path
     \<Rightarrow> (failure + 64 word) \<times> ('b, 'e, 'h) world" where
  "addFile fs B w impl p =
     (case is_regular_file fs p of
        Inl e \<Rightarrow> (Inl (filesystem_error e), w)
      | Inr regular \<Rightarrow>
          if \<not> regular then (Inl (InvalidPath p), w)
          else
            (case unresolved_symlink fs p of
               Inl e \<Rightarrow> (Inl (filesystem_error e), w)
             | Inr unresolved \<Rightarrow>
                 if unresolved then (Inl (UnresolvedSymlink p), w)
                 else
                   (case impl of
                      None \<Rightarrow> (Inl null_dereference, w)
                    | Some a \<Rightarrow>
                        (let (h, b') = impl_addFile B (object (heap w a)) p
                         in (Inr h, backend_call w a b' (BackendAddFile a p))))))"

definition remove_watch ::
  "('b, 'e) backend \<Rightarrow> ('b, 'e, 'h) world \<Rightarrow> addr option \<Rightarrow> 64 word
     \<Rightarrow> (failure + unit) \<times> ('b, 'e, 'h) world" where
  "remove_watch B w impl ident =
     (case impl of
        None \<Rightarrow> (Inl null_dereference, w)
      | Some a \<Rightarrow>
          (Inr (), backend_call w a (impl_remove B (object (heap w a)) ident) (BackendRemove a ident)))"

text \<open>The blocking monitor: \<open>ec\<close> is the caller's error code, passed by reference.\<close>

definition monitor ::
  "('b, 'e) backend \<Rightarrow> ('b, 'e, 'h) world \<Rightarrow> addr option \<Rightarrow> error_code
     \<Rightarrow> (failure + 'e \<times> error_code) \<times> ('b, 'e, 'h) world" where
  "monitor B w impl ec =
     (case impl of
        None \<Rightarrow> (Inl null_dereference, w)
      | Some a \<Rightarrow>
          (let (ev, ec', b') = impl_popFrontEvent B (object (heap w a)) ec
           in (Inr (ev, ec'), backend_call w a b' (BackendPopFrontEvent a))))"

text \<open>
  \<^verbatim>\<open>io_service::post\<close> on the host io_service: the bound handler goes to the end of its
  queue.
\<close>

definition host_post ::
  "('b, 'e, 'h) world \<Rightarrow> 'h \<Rightarrow> error_code \<Rightarrow> 'e \<Rightarrow> ('b, 'e, 'h) world" where
  "host_post w h ec ev = w\<lparr>host_posted := host_posted w @ [(h, ec, ev)]\<rparr>"

text \<open>
  \<^verbatim>\<open>MonitorOperation::operator()\<close>. The local \<open>impl\<close> obtained from \<open>lock()\<close> owns the
  backend until the end of the function, where it is released.
\<close>

definition MonitorOperation_call ::
  "('b, 'e) backend \<Rightarrow> 'h MonitorOperation \<Rightarrow> ('b, 'e, 'h) world \<Rightarrow> ('b, 'e, 'h) world" where
  "MonitorOperation_call B op w =
     (let (impl, w1) = wp_lock w (mImpl op)
      in case impl of
           Some a \<Rightarrow>
             (let (ev, ec, b') = impl_popFrontEvent B (object (heap w1 a)) success;
                  w2 = backend_call w1 a b' (BackendPopFrontEvent a);
                  w3 = host_post w2 (mHandler op) ec ev
              in sp_reset w3 impl)
         | None \<Rightarrow> host_post w1 (mHandler op) operation_aborted (event_default B))"

text \<open>
  \<^verbatim>\<open>asyncMonitor\<close>: a \<^verbatim>\<open>MonitorOperation\<close> observing \<open>impl\<close> weakly is posted to the
  service's own io_service, whose queue the worker thread runs.
\<close>

definition new_MonitorOperation :: "addr option \<Rightarrow> 'h \<Rightarrow> 'h MonitorOperation" where
  "new_MonitorOperation impl handler = \<lparr>mImpl = impl, mHandler = handler\<rparr>"

definition asyncMonitor ::
  "('b, 'e, 'h) world \<Rightarrow> addr option \<Rightarrow> 'h \<Rightarrow> ('b, 'e, 'h) world" where
  "asyncMonitor w impl handler =
     w\<lparr>worker_queue := worker_queue w @ [new_MonitorOperation impl handler]\<rparr>"

subsection \<open>A small instance of the parameters\<close>

text \<open>
  The theorems below hold for every filesystem and every backend. To apply them at concrete
  inputs, here is one filesystem and one backend. The filesystem has a directory
  \<^verbatim>\<open>/tmp/dir\<close>, a regular file \<^verbatim>\<open>/tmp/dir/a.txt\<close>, a symlink \<^verbatim>\<open>/tmp/link\<close> to that
  file, a symlink \<^verbatim>\<open>/tmp/dangling\<close> to \<^verbatim>\<open>/tmp/nonexistent\<close>, which does not exist, and two
  symlinks \<^verbatim>\<open>/tmp/loop\<close> and \<^verbatim>\<open>/tmp/loop2\<close> to each other, whose status cannot be had
  (error number 40, \<^verbatim>\<open>ELOOP\<close>). Reading a link that is none fails with 22
  (\<^verbatim>\<open>EINVAL\<close>). Its paths are compared by their elements: the root, if the text starts with
  a slash, and the names between slashes. The backend numbers its watches, queues the path of
  every file added as an event, and answers an empty queue with \<open>operation_aborted\<close>.
\<close>

fun names_between :: "string \<Rightarrow> string \<Rightarrow> string list" where
  "names_between name [] = (if name = [] then [] else [name])"
| "names_between name (c # cs) =
     (if c = CHR ''/'' then (if name = [] then names_between [] cs
                            else name # names_between [] cs)
      else names_between (name @ [c]) cs)"

definition example_elements :: "path \<Rightarrow> string list" where
  "example_elements p =
     (case p of
        [] \<Rightarrow> []
      | c # cs \<Rightarrow> (if c = CHR ''/'' then [''/''] else []) @ names_between [] p)"

definition example_loop :: "path \<Rightarrow> bool" where
  "example_loop p = (p = ''/tmp/loop'' \<or> p = ''/tmp/loop2'')"

definition example_fs :: filesystem where
  "example_fs =
     \<lparr>is_directory = (\<lambda>p. if example_loop p then Inl 40 else Inr (p = ''/tmp/dir'')),
      is_regular_file = (\<lambda>p. if example_loop p then Inl 40
                              else Inr (p = ''/tmp/dir/a.txt'' \<or> p = ''/tmp/link'')),
      is_symlink = (\<lambda>p. Inr (p = ''/tmp/link'' \<or> p = ''/tmp/dangling'' \<or> example_loop p)),
      read_symlink = (\<lambda>p. if p = ''/tmp/link'' then Inr ''/tmp/dir/a.txt''
                           else if p = ''/tmp/dangling'' then Inr ''/tmp/nonexistent''
                           else if p = ''/tmp/loop'' then Inr ''/tmp/loop2''
                           else if p = ''/tmp/loop2'' then Inr ''/tmp/loop''
                           else Inl 22),
      path_differs = (\<lambda>a b. example_elements a \<noteq> example_elements b)\<rparr>"

record example_state =
  next_id :: nat
  pending :: "string list"
  running :: bool

definition example_backend :: "(example_state, string) backend" where
  "example_backend =
     \<lparr>impl_new = \<lparr>next_id = 0, pending = [], running = True\<rparr>,
      impl_addPath = (\<lambda>s p re. (of_nat (next_id s), s\<lparr>next_id := Suc (next_id s)\<rparr>)),
      impl_addFile = (\<lambda>s p. (of_nat (next_id s),
                               s\<lparr>next_id := Suc (next_id s), pending := pending s @ [p]\<rparr>)),
      impl_remove = (\<lambda>s ident. s),
      impl_popFrontEvent = (\<lambda>s ec. case pending s of
                                       [] \<Rightarrow> ([], operation_aborted, s)
                                     | e # es \<Rightarrow> (e, success, s\<lparr>pending := es\<rparr>)),
      impl_destroy = (\<lambda>s. s\<lparr>running := False\<rparr>),
      event_default = []\<rparr>"

text \<open>No backend object yet, nothing queued.\<close>

definition example_world :: "(example_state, string, string) world" where
  "example_world =
     \<lparr>heap = (\<lambda>a. \<lparr>object = impl_new example_backend, use_count = 0\<rparr>),
      next_addr = 0, trace = [], worker_queue = [], host_posted = []\<rparr>"

text \<open>After \<open>construct\<close> on an empty \<open>impl\<close>: one backend object at address 0, owned once.\<close>

definition example_live :: "(example_state, string, string) world" where
  "example_live = fst (construct example_backend example_world None)"

text \<open>Then \<open>addFile\<close> of the regular file: the example backend has one event queued.\<close>

definition example_watching :: "(example_state, string, string) world" where
  "example_watching =
     snd (addFile example_fs example_backend example_live (Some 0) ''/tmp/dir/a.txt'')"

text \<open>Or else \<open>destroy\<close>: the only owner is gone.\<close>

definition example_destroyed :: "(example_state, string, string) world" where
  "example_destroyed = fst (snd (destroy example_backend example_live (Some 0)))"

lemmas example_defs =
  example_fs_def example_loop_def example_elements_def example_backend_def example_world_def
  example_live_def example_watching_def example_destroyed_def

section \<open>Validation of registrations\<close>

lemma what_differs: "InvalidPath p \<noteq> UnresolvedSymlink q"
proof
  assume "InvalidPath p = UnresolvedSymlink q"
  then have "last (what_prefix p @ [CHR 0x22] @ '' is not a valid file or directory entry'') =
             last (what_prefix q @ [CHR 0x22] @ '' this path is a symlink and must be resolved'')"
    by (simp only: InvalidPath_def UnresolvedSymlink_def failure.inject)
  then show False by simp
qed

lemma InvalidPath_neq_others:
  "InvalidPath p \<noteq> null_dereference" "InvalidPath p \<noteq> filesystem_error e"
  "null_dereference \<noteq> InvalidPath p" "filesystem_error e \<noteq> InvalidPath p"
  by (simp_all add: InvalidPath_def)

lemma UnresolvedSymlink_neq_others:
  "UnresolvedSymlink p \<noteq> null_dereference" "UnresolvedSymlink p \<noteq> filesystem_error e"
  "null_dereference \<noteq> UnresolvedSymlink p" "filesystem_error e \<noteq> UnresolvedSymlink p"
  by (simp_all add: UnresolvedSymlink_def)

lemma unresolved_symlink_True:
  "(unresolved_symlink fs p = Inr True) =
     (is_symlink fs p = Inr True \<and> (\<exists>t. read_symlink fs p = Inr t \<and> path_differs fs t p))"
  by (auto simp: unresolved_symlink_def split: sum.splits)

lemma addFile_throws_InvalidPath:
  "(fst (addFile fs B w impl p) = Inl (InvalidPath p)) = (is_regular_file fs p = Inr False)"
  using what_differs [of p p] InvalidPath_neq_others
  by (auto simp: addFile_def split: sum.splits option.splits prod.splits)

lemma addFile_throws_UnresolvedSymlink:
  "(fst (addFile fs B w impl p) = Inl (UnresolvedSymlink p)) =
     (is_regular_file fs p = Inr True \<and> unresolved_symlink fs p = Inr True)"
  using what_differs [of p p] UnresolvedSymlink_neq_others
  by (auto simp: addFile_def split: sum.splits option.splits prod.splits)

lemma addFile_returns_handle:
  "fst (addFile fs B w impl p) = Inr h \<Longrightarrow>
     is_regular_file fs p = Inr True \<and> unresolved_symlink fs p = Inr False"
  by (auto simp: addFile_def split: sum.splits option.splits prod.splits if_splits)

lemma example_loop_differs: "path_differs example_fs ''/tmp/loop2'' ''/tmp/loop''"
  by (simp add: example_fs_def example_elements_def)

lemma example_dangling_differs: "path_differs example_fs ''/tmp/nonexistent'' ''/tmp/dangling''"
  by (simp add: example_fs_def example_elements_def)

lemma example_link_differs: "path_differs example_fs ''/tmp/dir/a.txt'' ''/tmp/link''"
  by (simp add: example_fs_def example_elements_def)

text \<open>
  C6 as stated fails: \<^verbatim>\<open>/tmp/loop\<close> is not a directory (it is a symlink in a loop), and
  \<open>addPath\<close> leaves with the \<^verbatim>\<open>filesystem_error\<close> of \<open>is_directory\<close>, not with
  \<open>InvalidPath\<close>.
\<close>

theorem addPath_not_directory_counterexample:
  "is_directory example_fs ''/tmp/loop'' \<noteq> Inr True
   \<and> fst (addPath example_fs example_backend example_live (Some 0) ''/tmp/loop'' ''.*'')
       = Inl (filesystem_error 40)
   \<and> fst (addPath example_fs example_backend example_live (Some 0) ''/tmp/loop'' ''.*'')
       \<noteq> Inl (InvalidPath ''/tmp/loop'')"
  by (simp add: addPath_def example_fs_def example_loop_def InvalidPath_neq_others)

text \<open>
  C6, amended. For every path of which \<open>is_directory\<close> answers that it is not a directory,
  \<open>addPath\<close> throws \<open>InvalidPath\<close>; if \<open>is_directory\<close> throws a
  \<^verbatim>\<open>filesystem_error\<close> instead of answering, that is what \<open>addPath\<close> throws. Either way
  \<open>addPath\<close> returns no watch handle, and the world (the backend object, its ownership,
  the trace of backend calls, both queues) is the one it was called in, so the backend's
  \<open>addPath\<close> was not invoked.
\<close>

theorem addPath_not_directory_fails:
  "(is_directory fs p = Inr False \<longrightarrow>
      addPath fs B w impl p regexMatch = (Inl (InvalidPath p), w))
   \<and> (is_directory fs p = Inl e \<longrightarrow>
      addPath fs B w impl p regexMatch = (Inl (filesystem_error e), w))
   \<and> (is_directory fs p \<noteq> Inr True \<longrightarrow>
      snd (addPath fs B w impl p regexMatch) = w
      \<and> fst (addPath fs B w impl p regexMatch) \<noteq> Inr h)"
  by (auto simp: addPath_def split: sum.splits)

theorem addPath_not_directory_fails_witness:
  "is_directory example_fs ''/tmp/dir/a.txt'' = Inr False
   \<and> addPath example_fs example_backend example_live (Some 0) ''/tmp/dir/a.txt'' ''.*''
       = (Inl (InvalidPath ''/tmp/dir/a.txt''), example_live)
   \<and> is_directory example_fs ''/tmp/loop'' = Inl 40
   \<and> addPath example_fs example_backend example_live (Some 0) ''/tmp/loop'' ''.*''
       = (Inl (filesystem_error 40), example_live)
   \<and> is_directory example_fs ''/tmp/loop'' \<noteq> Inr True
   \<and> snd (addPath example_fs example_backend example_live (Some 0) ''/tmp/loop'' ''.*'')
       = example_live
   \<and> fst (addPath example_fs example_backend example_live (Some 0) ''/tmp/loop'' ''.*'')
       \<noteq> Inr 0"
proof -
  have h1: "is_directory example_fs ''/tmp/dir/a.txt'' = Inr False"
    by (simp add: example_fs_def example_loop_def)
  have h2: "is_directory example_fs ''/tmp/loop'' = Inl 40"
    by (simp add: example_fs_def example_loop_def)
  from addPath_not_directory_fails
         [of example_fs "''/tmp/dir/a.txt''" example_backend example_live "Some 0" "''.*''"]
       addPath_not_directory_fails
         [of example_fs "''/tmp/loop''" example_backend example_live "Some 0" "''.*''" 40 0]
       h1 h2
  show ?thesis by simp
qed

text \<open>
  C7 as stated fails: \<^verbatim>\<open>/tmp/loop\<close> is not a regular file, and \<open>addFile\<close> leaves with
  the \<^verbatim>\<open>filesystem_error\<close> of \<open>is_regular_file\<close>, not with \<open>InvalidPath\<close>.
\<close>

theorem addFile_not_regular_file_counterexample:
  "is_regular_file example_fs ''/tmp/loop'' \<noteq> Inr True
   \<and> fst (addFile example_fs example_backend example_live (Some 0) ''/tmp/loop'')
       = Inl (filesystem_error 40)
   \<and> fst (addFile example_fs example_backend example_live (Some 0) ''/tmp/loop'')
       \<noteq> Inl (InvalidPath ''/tmp/loop'')"
  by (simp add: addFile_def example_fs_def example_loop_def InvalidPath_neq_others)

text \<open>
  C7, amended. For every path of which \<open>is_regular_file\<close> answers that it is not a regular
  file (a path that does not exist is one), \<open>addFile\<close> throws \<open>InvalidPath\<close> from the
  call itself; if \<open>is_regular_file\<close> throws a \<^verbatim>\<open>filesystem_error\<close> instead of
  answering, that is what \<open>addFile\<close> throws. Either way \<open>addFile\<close> returns no watch
  handle and the world is unchanged, so the backend was not invoked.
\<close>

theorem addFile_not_regular_file_fails:
  "(is_regular_file fs p = Inr False \<longrightarrow> addFile fs B w impl p = (Inl (InvalidPath p), w))
   \<and> (is_regular_file fs p = Inl e \<longrightarrow> addFile fs B w impl p = (Inl (filesystem_error e), w))
   \<and> (is_regular_file fs p \<noteq> Inr True \<longrightarrow>
      snd (addFile fs B w impl p) = w \<and> fst (addFile fs B w impl p) \<noteq> Inr h)"
  by (auto simp: addFile_def split: sum.splits)

theorem addFile_not_regular_file_fails_witness:
  "is_regular_file example_fs ''/tmp/nonexistent'' = Inr False
   \<and> addFile example_fs example_backend example_live (Some 0) ''/tmp/nonexistent''
       = (Inl (InvalidPath ''/tmp/nonexistent''), example_live)
   \<and> is_regular_file example_fs ''/tmp/loop'' = Inl 40
   \<and> addFile example_fs example_backend example_live (Some 0) ''/tmp/loop''
       = (Inl (filesystem_error 40), example_live)
   \<and> is_regular_file example_fs ''/tmp/loop'' \<noteq> Inr True
   \<and> snd (addFile example_fs example_backend example_live (Some 0) ''/tmp/loop'') = example_live
   \<and> fst (addFile example_fs example_backend example_live (Some 0) ''/tmp/loop'') \<noteq> Inr 0"
proof -
  have h1: "is_regular_file example_fs ''/tmp/nonexistent'' = Inr False"
    by (simp add: example_fs_def example_loop_def)
  have h2: "is_regular_file example_fs ''/tmp/loop'' = Inl 40"
    by (simp add: example_fs_def example_loop_def)
  from addFile_not_regular_file_fails
         [of example_fs "''/tmp/nonexistent''" example_backend example_live "Some 0"]
       addFile_not_regular_file_fails
         [of example_fs "''/tmp/loop''" example_backend example_live "Some 0" 40 0]
       h1 h2
  show ?thesis by simp
qed

text \<open>
  C8. \<open>InvalidPath\<close> and \<open>UnresolvedSymlink\<close> are distinct failures, whatever the paths
  in them (both are \<^verbatim>\<open>std::invalid_argument\<close>, and the texts of \<^verbatim>\<open>what()\<close> never
  coincide). The failure a caller gets tells which precondition failed: \<open>addFile\<close> throws
  \<open>InvalidPath\<close> exactly when \<open>is_regular_file\<close> answers that the path is not a regular
  file, and \<open>UnresolvedSymlink\<close> exactly when the path is a regular file and a symlink whose
  target differs from it; \<open>addPath\<close> throws \<open>InvalidPath\<close> exactly when
  \<open>is_directory\<close> answers that the path is not a directory, and never
  \<open>UnresolvedSymlink\<close>.
\<close>

theorem InvalidPath_UnresolvedSymlink_distinct:
  "InvalidPath p \<noteq> UnresolvedSymlink q
   \<and> (fst (addFile fs B w impl p) = Inl (InvalidPath p)) = (is_regular_file fs p = Inr False)
   \<and> (fst (addFile fs B w impl p) = Inl (UnresolvedSymlink p))
       = (is_regular_file fs p = Inr True \<and> is_symlink fs p = Inr True
          \<and> (\<exists>t. read_symlink fs p = Inr t \<and> path_differs fs t p))
   \<and> (fst (addPath fs B w impl p regexMatch) = Inl (InvalidPath p))
       = (is_directory fs p = Inr False)
   \<and> fst (addPath fs B w impl p regexMatch) \<noteq> Inl (UnresolvedSymlink q)"
proof -
  have 1: "(fst (addFile fs B w impl p) = Inl (InvalidPath p)) = (is_regular_file fs p = Inr False)"
    by (rule addFile_throws_InvalidPath)
  have 2: "(fst (addFile fs B w impl p) = Inl (UnresolvedSymlink p))
             = (is_regular_file fs p = Inr True \<and> is_symlink fs p = Inr True
                \<and> (\<exists>t. read_symlink fs p = Inr t \<and> path_differs fs t p))"
    by (simp only: addFile_throws_UnresolvedSymlink unresolved_symlink_True)
  have 3: "(fst (addPath fs B w impl p regexMatch) = Inl (InvalidPath p))
             = (is_directory fs p = Inr False)"
    using InvalidPath_neq_others
    by (auto simp: addPath_def split: sum.splits option.splits prod.splits)
  have 4: "fst (addPath fs B w impl p regexMatch) \<noteq> Inl (UnresolvedSymlink q)"
    using what_differs [of p q] UnresolvedSymlink_neq_others
    by (auto simp: addPath_def split: sum.splits option.splits prod.splits)
  from what_differs [of p q] 1 2 3 4 show ?thesis by blast
qed

text \<open>
  C10 as stated fails: \<^verbatim>\<open>/tmp/loop\<close> is a symlink whose target \<^verbatim>\<open>/tmp/loop2\<close> differs
  from it, and it is not a regular file; \<open>addFile\<close> leaves with the
  \<^verbatim>\<open>filesystem_error\<close> of \<open>is_regular_file\<close>, not with \<open>InvalidPath\<close>.
\<close>

theorem addFile_unresolved_not_regular_counterexample:
  "is_symlink example_fs ''/tmp/loop'' = Inr True
   \<and> read_symlink example_fs ''/tmp/loop'' = Inr ''/tmp/loop2''
   \<and> path_differs example_fs ''/tmp/loop2'' ''/tmp/loop''
   \<and> is_regular_file example_fs ''/tmp/loop'' \<noteq> Inr True
   \<and> fst (addFile example_fs example_backend example_live (Some 0) ''/tmp/loop'')
       \<noteq> Inl (InvalidPath ''/tmp/loop'')"
proof -
  have "fst (addFile example_fs example_backend example_live (Some 0) ''/tmp/loop'')
          = Inl (filesystem_error 40)"
    by (simp add: addFile_def example_fs_def example_loop_def)
  moreover have "is_symlink example_fs ''/tmp/loop'' = Inr True
      \<and> read_symlink example_fs ''/tmp/loop'' = Inr ''/tmp/loop2''
      \<and> is_regular_file example_fs ''/tmp/loop'' \<noteq> Inr True"
    by (simp add: example_fs_def example_loop_def)
  ultimately show ?thesis
    using example_loop_differs by (simp add: InvalidPath_neq_others)
qed

text \<open>
  C10, amended. \<open>addFile\<close> asks \<open>is_regular_file\<close> before it asks \<open>is_symlink\<close>. A
  symlink whose target differs from the path and of which \<open>is_regular_file\<close> answers that it
  is not a regular file (a symlink to a directory, a dangling symlink) gets \<open>InvalidPath\<close>
  and not \<open>UnresolvedSymlink\<close>; if \<open>is_regular_file\<close> throws a
  \<^verbatim>\<open>filesystem_error\<close> instead of answering, \<open>addFile\<close> throws that, and again not
  \<open>UnresolvedSymlink\<close>; and whenever \<open>addFile\<close> throws \<open>UnresolvedSymlink\<close>, the path
  is a regular file and a symlink whose target differs from it.
\<close>

theorem addFile_asks_regular_file_first:
  "(is_symlink fs p = Inr True \<and> read_symlink fs p = Inr t \<and> path_differs fs t p
      \<and> is_regular_file fs p = Inr False
      \<longrightarrow> fst (addFile fs B w impl p) = Inl (InvalidPath p)
          \<and> fst (addFile fs B w impl p) \<noteq> Inl (UnresolvedSymlink p))
   \<and> (is_regular_file fs p = Inl e
      \<longrightarrow> fst (addFile fs B w impl p) = Inl (filesystem_error e)
          \<and> fst (addFile fs B w impl p) \<noteq> Inl (UnresolvedSymlink p))
   \<and> (fst (addFile fs B w impl p) = Inl (UnresolvedSymlink p)
      \<longrightarrow> is_regular_file fs p = Inr True \<and> is_symlink fs p = Inr True
          \<and> (\<exists>t. read_symlink fs p = Inr t \<and> path_differs fs t p))"
proof (intro conjI impI)
  assume "is_symlink fs p = Inr True \<and> read_symlink fs p = Inr t \<and> path_differs fs t p
      \<and> is_regular_file fs p = Inr False"
  then have r: "is_regular_file fs p = Inr False" by simp
  then show "fst (addFile fs B w impl p) = Inl (InvalidPath p)"
    by (simp add: addFile_throws_InvalidPath)
  from r show "fst (addFile fs B w impl p) \<noteq> Inl (UnresolvedSymlink p)"
    by (simp add: addFile_throws_UnresolvedSymlink)
next
  assume e: "is_regular_file fs p = Inl e"
  then show "fst (addFile fs B w impl p) = Inl (filesystem_error e)"
    by (simp add: addFile_def)
  from e show "fst (addFile fs B w impl p) \<noteq> Inl (UnresolvedSymlink p)"
    by (simp add: addFile_throws_UnresolvedSymlink)
next
  assume u: "fst (addFile fs B w impl p) = Inl (UnresolvedSymlink p)"
  then have a: "is_regular_file fs p = Inr True \<and> unresolved_symlink fs p = Inr True"
    by (simp only: addFile_throws_UnresolvedSymlink)
  from a show "is_regular_file fs p = Inr True" by simp
  from a show "is_symlink fs p = Inr True"
    by (simp add: unresolved_symlink_True)
  from a show "\<exists>t. read_symlink fs p = Inr t \<and> path_differs fs t p"
    by (simp add: unresolved_symlink_True)
qed

theorem addFile_asks_regular_file_first_witness:
  "is_symlink example_fs ''/tmp/dangling'' = Inr True
   \<and> read_symlink example_fs ''/tmp/dangling'' = Inr ''/tmp/nonexistent''
   \<and> path_differs example_fs ''/tmp/nonexistent'' ''/tmp/dangling''
   \<and> is_regular_file example_fs ''/tmp/dangling'' = Inr False
   \<and> fst (addFile example_fs example_backend example_live (Some 0) ''/tmp/dangling'')
       = Inl (InvalidPath ''/tmp/dangling'')
   \<and> fst (addFile example_fs example_backend example_live (Some 0) ''/tmp/dangling'')
       \<noteq> Inl (UnresolvedSymlink ''/tmp/dangling'')
   \<and> is_regular_file example_fs ''/tmp/loop'' = Inl 40
   \<and> fst (addFile example_fs example_backend example_live (Some 0) ''/tmp/loop'')
       = Inl (filesystem_error 40)
   \<and> fst (addFile example_fs example_backend example_live (Some 0) ''/tmp/loop'')
       \<noteq> Inl (UnresolvedSymlink ''/tmp/loop'')
   \<and> fst (addFile example_fs example_backend example_live (Some 0) ''/tmp/link'')
       = Inl (UnresolvedSymlink ''/tmp/link'')
   \<and> is_regular_file example_fs ''/tmp/link'' = Inr True
   \<and> is_symlink example_fs ''/tmp/link'' = Inr True
   \<and> (\<exists>t. read_symlink example_fs ''/tmp/link'' = Inr t
           \<and> path_differs example_fs t ''/tmp/link'')"
proof -
  have h1: "is_symlink example_fs ''/tmp/dangling'' = Inr True
      \<and> read_symlink example_fs ''/tmp/dangling'' = Inr ''/tmp/nonexistent''
      \<and> path_differs example_fs ''/tmp/nonexistent'' ''/tmp/dangling''
      \<and> is_regular_file example_fs ''/tmp/dangling'' = Inr False"
    using example_dangling_differs by (simp add: example_fs_def example_loop_def)
  have h2: "is_regular_file example_fs ''/tmp/loop'' = Inl 40"
    by (simp add: example_fs_def example_loop_def)
  have l: "is_regular_file example_fs ''/tmp/link'' = Inr True
      \<and> unresolved_symlink example_fs ''/tmp/link'' = Inr True"
    using example_link_differs
    by (simp add: unresolved_symlink_def example_fs_def example_loop_def)
  then have h3: "fst (addFile example_fs example_backend example_live (Some 0) ''/tmp/link'')
          = Inl (UnresolvedSymlink ''/tmp/link'')"
    by (simp add: addFile_def)
  from addFile_asks_regular_file_first
         [of example_fs "''/tmp/dangling''" "''/tmp/nonexistent''" example_backend example_live
            "Some 0"]
       addFile_asks_regular_file_first
         [of example_fs "''/tmp/loop''" _ example_backend example_live "Some 0" 40]
       addFile_asks_regular_file_first
         [of example_fs "''/tmp/link''" _ example_backend example_live "Some 0"]
       h1 h2 h3
  show ?thesis by blast
qed

text \<open>
  C5 as stated fails: the dangling symlink \<^verbatim>\<open>/tmp/dangling\<close> is a symlink whose target
  differs from the path, and \<open>addFile\<close> throws \<open>InvalidPath\<close> for it, not
  \<open>UnresolvedSymlink\<close>.
\<close>

theorem addFile_symlink_always_UnresolvedSymlink_counterexample:
  "is_symlink example_fs ''/tmp/dangling'' = Inr True
   \<and> read_symlink example_fs ''/tmp/dangling'' = Inr ''/tmp/nonexistent''
   \<and> path_differs example_fs ''/tmp/nonexistent'' ''/tmp/dangling''
   \<and> fst (addFile example_fs example_backend example_live (Some 0) ''/tmp/dangling'')
       = Inl (InvalidPath ''/tmp/dangling'')
   \<and> fst (addFile example_fs example_backend example_live (Some 0) ''/tmp/dangling'')
       \<noteq> Inl (UnresolvedSymlink ''/tmp/dangling'')"
proof -
  have "fst (addFile example_fs example_backend example_live (Some 0) ''/tmp/dangling'')
       = Inl (InvalidPath ''/tmp/dangling'')"
    by (simp add: addFile_def example_fs_def example_loop_def)
  moreover have "is_symlink example_fs ''/tmp/dangling'' = Inr True
   \<and> read_symlink example_fs ''/tmp/dangling'' = Inr ''/tmp/nonexistent''"
    by (simp add: example_fs_def example_loop_def)
  ultimately show ?thesis
    using what_differs [of "''/tmp/dangling''" "''/tmp/dangling''"] example_dangling_differs
    by simp
qed

text \<open>
  C5, amended. For every path that is a regular file and a symlink whose target differs from
  the path (as boost compares paths), \<open>addFile\<close> throws \<open>UnresolvedSymlink\<close>, returns no
  watch handle and leaves the world unchanged; and \<open>addFile\<close> returns a watch handle only
  for a path that is a regular file and not such an unresolved symlink.
\<close>

theorem addFile_regular_symlink_UnresolvedSymlink:
  "(is_regular_file fs p = Inr True \<and> is_symlink fs p = Inr True
      \<and> read_symlink fs p = Inr t \<and> path_differs fs t p
      \<longrightarrow> addFile fs B w impl p = (Inl (UnresolvedSymlink p), w))
   \<and> (fst (addFile fs B w impl p) = Inr h
      \<longrightarrow> is_regular_file fs p = Inr True
          \<and> \<not> (is_symlink fs p = Inr True
                \<and> (\<exists>t. read_symlink fs p = Inr t \<and> path_differs fs t p)))"
proof (intro conjI impI)
  assume "is_regular_file fs p = Inr True \<and> is_symlink fs p = Inr True
      \<and> read_symlink fs p = Inr t \<and> path_differs fs t p"
  then show "addFile fs B w impl p = (Inl (UnresolvedSymlink p), w)"
    by (simp add: addFile_def unresolved_symlink_def)
next
  assume "fst (addFile fs B w impl p) = Inr h"
  then have a: "is_regular_file fs p = Inr True \<and> unresolved_symlink fs p = Inr False"
    by (rule addFile_returns_handle)
  from a show "is_regular_file fs p = Inr True" by simp
  from a have "unresolved_symlink fs p \<noteq> Inr True" by simp
  then show "\<not> (is_symlink fs p = Inr True
                \<and> (\<exists>t. read_symlink fs p = Inr t \<and> path_differs fs t p))"
    by (simp only: unresolved_symlink_True not_False_eq_True)
qed

theorem addFile_regular_symlink_UnresolvedSymlink_witness:
  "is_regular_file example_fs ''/tmp/link'' = Inr True
   \<and> is_symlink example_fs ''/tmp/link'' = Inr True
   \<and> read_symlink example_fs ''/tmp/link'' = Inr ''/tmp/dir/a.txt''
   \<and> path_differs example_fs ''/tmp/dir/a.txt'' ''/tmp/link''
   \<and> addFile example_fs example_backend example_live (Some 0) ''/tmp/link''
       = (Inl (UnresolvedSymlink ''/tmp/link''), example_live)
   \<and> fst (addFile example_fs example_backend example_live (Some 0) ''/tmp/dir/a.txt'') = Inr 0
   \<and> is_regular_file example_fs ''/tmp/dir/a.txt'' = Inr True
   \<and> \<not> (is_symlink example_fs ''/tmp/dir/a.txt'' = Inr True
         \<and> (\<exists>t. read_symlink example_fs ''/tmp/dir/a.txt'' = Inr t
                 \<and> path_differs example_fs t ''/tmp/dir/a.txt''))"
proof -
  have h1: "is_regular_file example_fs ''/tmp/link'' = Inr True
      \<and> is_symlink example_fs ''/tmp/link'' = Inr True
      \<and> read_symlink example_fs ''/tmp/link'' = Inr ''/tmp/dir/a.txt''
      \<and> path_differs example_fs ''/tmp/dir/a.txt'' ''/tmp/link''"
    using example_link_differs by (simp add: example_fs_def example_loop_def)
  have h2: "fst (addFile example_fs example_backend example_live (Some 0) ''/tmp/dir/a.txt'')
      = Inr 0"
    by (simp add: addFile_def unresolved_symlink_def example_fs_def example_loop_def
        example_live_def construct_def example_world_def example_backend_def sp_reset_def
        backend_call_def)
  from addFile_regular_symlink_UnresolvedSymlink
         [of example_fs "''/tmp/link''" "''/tmp/dir/a.txt''" example_backend example_live "Some 0"]
       addFile_regular_symlink_UnresolvedSymlink
         [of example_fs "''/tmp/dir/a.txt''" _ example_backend example_live "Some 0" 0]
       h1 h2
  show ?thesis by blast
qed

section \<open>The blocking monitor\<close>

text \<open>
  C9. On an \<open>impl\<close> that owns a backend, \<open>monitor\<close> returns the event and the error code
  of one call of the backend's \<open>popFrontEvent\<close>, made with the caller's error code: the
  trace grows by that one call, the backend keeps the state the call left, and neither the
  worker's queue nor the host's queue is touched.
\<close>

theorem monitor_is_one_popFrontEvent:
  assumes "impl = Some a"
    and "impl_popFrontEvent B (object (heap w a)) ec = (ev, ec', b')"
  shows "fst (monitor B w impl ec) = Inr (ev, ec')
    \<and> trace (snd (monitor B w impl ec)) = trace w @ [BackendPopFrontEvent a]
    \<and> object (heap (snd (monitor B w impl ec)) a) = b'
    \<and> use_count (heap (snd (monitor B w impl ec)) a) = use_count (heap w a)
    \<and> worker_queue (snd (monitor B w impl ec)) = worker_queue w
    \<and> host_posted (snd (monitor B w impl ec)) = host_posted w"
  using assms by (simp add: monitor_def backend_call_def)

theorem monitor_is_one_popFrontEvent_witness:
  "fst (monitor example_backend example_watching (Some 0) (backend_error 5))
     = Inr (''/tmp/dir/a.txt'', success)
   \<and> trace (snd (monitor example_backend example_watching (Some 0) (backend_error 5)))
     = trace example_watching @ [BackendPopFrontEvent 0]
   \<and> worker_queue (snd (monitor example_backend example_watching (Some 0) (backend_error 5))) = []
   \<and> host_posted (snd (monitor example_backend example_watching (Some 0) (backend_error 5))) = []"
proof -
  have h: "impl_popFrontEvent example_backend (object (heap example_watching 0)) (backend_error 5)
             = (''/tmp/dir/a.txt'', success,
                \<lparr>next_id = 1, pending = [], running = True\<rparr>)"
    by (simp add: example_defs addFile_def unresolved_symlink_def construct_def sp_reset_def backend_call_def)
  have q: "worker_queue example_watching = [] \<and> host_posted example_watching = []"
    by (simp add: example_defs addFile_def unresolved_symlink_def construct_def sp_reset_def backend_call_def)
  from monitor_is_one_popFrontEvent [OF refl h] q show ?thesis
    by simp
qed

section \<open>The asynchronous monitor\<close>

lemma wp_lock_expired: "expired w wp \<Longrightarrow> wp_lock w wp = (None, w)"
  by (auto simp: wp_lock_def split: option.splits)

lemma wp_lock_live:
  "\<not> expired w (Some a) \<Longrightarrow>
     wp_lock w (Some a) =
       (Some a,
        w\<lparr>heap := (heap w)(a := (heap w a)\<lparr>use_count := Suc (use_count (heap w a))\<rparr>),
          trace := trace w @ [Acquire a]\<rparr>)"
  by (simp add: wp_lock_def)

lemma call_expired:
  "expired w (mImpl op) \<Longrightarrow>
     MonitorOperation_call B op w =
       w\<lparr>host_posted := host_posted w @ [(mHandler op, operation_aborted, event_default B)]\<rparr>"
  by (simp add: MonitorOperation_call_def wp_lock_expired host_post_def)

lemma call_live:
  assumes "\<not> expired w (Some a)" and "mImpl op = Some a"
    and "impl_popFrontEvent B (object (heap w a)) success = (ev, ec, b')"
  shows "MonitorOperation_call B op w =
     w\<lparr>heap := (heap w)(a := (heap w a)\<lparr>object := b'\<rparr>),
       trace := trace w @ [Acquire a, BackendPopFrontEvent a, Release a],
       host_posted := host_posted w @ [(mHandler op, ec, ev)]\<rparr>"
  using assms
  by (simp add: MonitorOperation_call_def wp_lock_live host_post_def backend_call_def
      sp_reset_def sp_release_def)

lemma call_posts_once:
  "\<exists>ec ev. host_posted (MonitorOperation_call B op w) = host_posted w @ [(mHandler op, ec, ev)]"
proof (cases "expired w (mImpl op)")
  case True
  then show ?thesis by (simp add: call_expired)
next
  case False
  then obtain a where a: "mImpl op = Some a"
    by (cases "mImpl op") (simp_all add: expired_def)
  obtain ev ec b' where p: "impl_popFrontEvent B (object (heap w a)) success = (ev, ec, b')"
    by (cases "impl_popFrontEvent B (object (heap w a)) success")
  from False a have "\<not> expired w (Some a)" by simp
  from call_live [OF this a p] show ?thesis by simp
qed

text \<open>
  C1. \<open>asyncMonitor\<close> puts one \<open>MonitorOperation\<close> for the handler at the end of the
  worker's queue. Running that operation, in whatever world, adds exactly one completion to
  the host's queue, for that handler: the queue grows by one, whether \<open>lock\<close> succeeds or not.
  The same holds of any \<open>MonitorOperation\<close>.
\<close>

theorem MonitorOperation_posts_exactly_once:
  "worker_queue (asyncMonitor w0 impl h) = worker_queue w0 @ [new_MonitorOperation impl h]
   \<and> (\<exists>ec ev. host_posted (MonitorOperation_call B (new_MonitorOperation impl h) w)
                = host_posted w @ [(h, ec, ev)])
   \<and> (\<exists>ec ev. host_posted (MonitorOperation_call B op w)
                = host_posted w @ [(mHandler op, ec, ev)])
   \<and> length (host_posted (MonitorOperation_call B op w)) = Suc (length (host_posted w))"
proof -
  have 1: "worker_queue (asyncMonitor w0 impl h) = worker_queue w0 @ [new_MonitorOperation impl h]"
    by (simp add: asyncMonitor_def)
  have 2: "\<exists>ec ev. host_posted (MonitorOperation_call B (new_MonitorOperation impl h) w)
                = host_posted w @ [(h, ec, ev)]"
    using call_posts_once [of B "new_MonitorOperation impl h" w]
    by (simp add: new_MonitorOperation_def)
  have 3: "\<exists>ec ev. host_posted (MonitorOperation_call B op w)
                = host_posted w @ [(mHandler op, ec, ev)]"
    by (rule call_posts_once)
  from 3 have 4: "length (host_posted (MonitorOperation_call B op w)) = Suc (length (host_posted w))"
    by auto
  from 1 2 3 4 show ?thesis by blast
qed

text \<open>
  C2. If the weak pointer of the operation is expired, running the operation only appends
  \<open>(operation_aborted, FileMonitorEvent())\<close> for its handler to the host's queue: the
  backend objects, their ownership and the trace are unchanged, so no backend operation was
  performed. If it is not expired, the operation calls \<open>popFrontEvent\<close> once, with a fresh
  error code, and appends to the host's queue the error code and the event the call gave.
\<close>

theorem MonitorOperation_abort_or_pop:
  "(expired w (mImpl op) \<longrightarrow>
      MonitorOperation_call B op w =
        w\<lparr>host_posted := host_posted w @ [(mHandler op, operation_aborted, event_default B)]\<rparr>)
   \<and> (\<not> expired w (mImpl op) \<and> mImpl op = Some a
        \<and> impl_popFrontEvent B (object (heap w a)) success = (ev, ec, b') \<longrightarrow>
      host_posted (MonitorOperation_call B op w) = host_posted w @ [(mHandler op, ec, ev)]
      \<and> trace (MonitorOperation_call B op w)
          = trace w @ [Acquire a, BackendPopFrontEvent a, Release a]
      \<and> object (heap (MonitorOperation_call B op w) a) = b'
      \<and> use_count (heap (MonitorOperation_call B op w) a) = use_count (heap w a))"
proof (intro conjI impI)
  assume "expired w (mImpl op)"
  then show "MonitorOperation_call B op w =
        w\<lparr>host_posted := host_posted w @ [(mHandler op, operation_aborted, event_default B)]\<rparr>"
    by (rule call_expired)
next
  assume h: "\<not> expired w (mImpl op) \<and> mImpl op = Some a
        \<and> impl_popFrontEvent B (object (heap w a)) success = (ev, ec, b')"
  then have e: "\<not> expired w (Some a)" by auto
  from h have c: "MonitorOperation_call B op w =
     w\<lparr>heap := (heap w)(a := (heap w a)\<lparr>object := b'\<rparr>),
       trace := trace w @ [Acquire a, BackendPopFrontEvent a, Release a],
       host_posted := host_posted w @ [(mHandler op, ec, ev)]\<rparr>"
    using call_live [OF e] by blast
  show "host_posted (MonitorOperation_call B op w) = host_posted w @ [(mHandler op, ec, ev)]"
    by (simp add: c)
  show "trace (MonitorOperation_call B op w)
          = trace w @ [Acquire a, BackendPopFrontEvent a, Release a]"
    by (simp add: c)
  show "object (heap (MonitorOperation_call B op w) a) = b'"
    by (simp add: c)
  show "use_count (heap (MonitorOperation_call B op w) a) = use_count (heap w a)"
    by (simp add: c)
qed

theorem MonitorOperation_abort_or_pop_witness:
  "(expired example_destroyed (mImpl (new_MonitorOperation (Some 0) ''h1''))
    \<and> host_posted (MonitorOperation_call example_backend
                     (new_MonitorOperation (Some 0) ''h1'') example_destroyed)
        = [(''h1'', operation_aborted, [])]
    \<and> trace (MonitorOperation_call example_backend
                (new_MonitorOperation (Some 0) ''h1'') example_destroyed)
        = trace example_destroyed)
   \<and> (\<not> expired example_watching (mImpl (new_MonitorOperation (Some 0) ''h1''))
    \<and> host_posted (MonitorOperation_call example_backend
                     (new_MonitorOperation (Some 0) ''h1'') example_watching)
        = [(''h1'', success, ''/tmp/dir/a.txt'')]
    \<and> trace (MonitorOperation_call example_backend
                (new_MonitorOperation (Some 0) ''h1'') example_watching)
        = trace example_watching @ [Acquire 0, BackendPopFrontEvent 0, Release 0])"
proof -
  let ?op = "new_MonitorOperation (Some 0) ''h1'' :: string MonitorOperation"
  have e1: "expired example_destroyed (mImpl ?op)"
    by (simp add: new_MonitorOperation_def expired_def example_defs destroy_def construct_def
        sp_reset_def sp_release_def backend_call_def)
  have p1: "host_posted example_destroyed = []"
    by (simp add: example_defs destroy_def construct_def
        sp_reset_def sp_release_def backend_call_def)
  have e2: "\<not> expired example_watching (mImpl ?op) \<and> mImpl ?op = Some 0
     \<and> impl_popFrontEvent example_backend (object (heap example_watching 0)) success
         = (''/tmp/dir/a.txt'', success, \<lparr>next_id = 1, pending = [], running = True\<rparr>)"
    by (simp add: new_MonitorOperation_def expired_def example_defs addFile_def unresolved_symlink_def construct_def
        sp_reset_def backend_call_def)
  have p2: "host_posted example_watching = []"
    by (simp add: example_defs addFile_def unresolved_symlink_def construct_def sp_reset_def backend_call_def)
  have m: "mHandler ?op = ''h1''"
    by (simp add: new_MonitorOperation_def)
  from MonitorOperation_abort_or_pop [of example_destroyed ?op example_backend]
    e1 p1 m
  have a: "MonitorOperation_call example_backend ?op example_destroyed =
        example_destroyed\<lparr>host_posted := [(''h1'', operation_aborted, event_default example_backend)]\<rparr>"
    by (simp add: new_MonitorOperation_def)
  have d: "event_default example_backend = []"
    by (simp add: example_backend_def)
  from MonitorOperation_abort_or_pop [of example_watching ?op example_backend 0
       "''/tmp/dir/a.txt''" success "\<lparr>next_id = 1, pending = [], running = True\<rparr>"]
    e2 p2 m
  have b: "host_posted (MonitorOperation_call example_backend ?op example_watching)
        = [(''h1'', success, ''/tmp/dir/a.txt'')]
      \<and> trace (MonitorOperation_call example_backend ?op example_watching)
        = trace example_watching @ [Acquire 0, BackendPopFrontEvent 0, Release 0]"
    by (simp add: new_MonitorOperation_def)
  from a b d e1 e2 p1 show ?thesis by (auto simp: new_MonitorOperation_def)
qed

section \<open>Tearing down the backend\<close>

text \<open>
  C4. \<open>destroy\<close> on an \<open>impl\<close> that owns the backend at \<open>a\<close> first calls the backend's
  \<open>destroy\<close> on that object and then releases the ownership \<open>impl\<close> held, leaving
  \<open>impl\<close> empty: the trace grows by the call followed by the release, the object carries
  the state the backend's \<open>destroy\<close> left, and it has one owner less. On an empty
  \<open>impl\<close> the call through \<open>impl\<close> fails and nothing is released. In no case does a
  release come before the backend's \<open>destroy\<close>.
\<close>

theorem destroy_calls_backend_then_releases:
  "(impl = None \<longrightarrow> destroy B w impl = (Inl null_dereference, w, None))
   \<and> (impl = Some a \<longrightarrow>
        fst (destroy B w impl) = Inr ()
        \<and> snd (snd (destroy B w impl)) = None
        \<and> trace (fst (snd (destroy B w impl))) = trace w @ [BackendDestroy a, Release a]
        \<and> object (heap (fst (snd (destroy B w impl))) a) = impl_destroy B (object (heap w a))
        \<and> use_count (heap (fst (snd (destroy B w impl))) a) = use_count (heap w a) - 1)"
  by (simp add: destroy_def sp_reset_def sp_release_def backend_call_def)

theorem destroy_calls_backend_then_releases_witness:
  "fst (destroy example_backend example_live (Some 0)) = Inr ()
   \<and> snd (snd (destroy example_backend example_live (Some 0))) = None
   \<and> trace (fst (snd (destroy example_backend example_live (Some 0))))
       = [BackendNew 0, BackendDestroy 0, Release 0]
   \<and> object (heap (fst (snd (destroy example_backend example_live (Some 0)))) 0)
       = \<lparr>next_id = 0, pending = [], running = False\<rparr>
   \<and> use_count (heap (fst (snd (destroy example_backend example_live (Some 0)))) 0) = 0
   \<and> destroy example_backend example_live None = (Inl null_dereference, example_live, None)"
proof -
  have t: "trace example_live = [BackendNew 0]"
    by (simp add: example_defs construct_def sp_reset_def)
  have o: "object (heap example_live 0) = \<lparr>next_id = 0, pending = [], running = True\<rparr>
           \<and> use_count (heap example_live 0) = 1"
    by (simp add: example_defs construct_def sp_reset_def)
  have i: "impl_destroy example_backend \<lparr>next_id = 0, pending = [], running = True\<rparr>
           = \<lparr>next_id = 0, pending = [], running = False\<rparr>"
    by (simp add: example_backend_def)
  from destroy_calls_backend_then_releases [of "Some 0" example_backend example_live 0]
       destroy_calls_backend_then_releases [of None example_backend example_live 0]
       t o i
  show ?thesis by simp
qed

end
